theory Spec2Isabelle
  imports Complex_Main "HOL-Library.Monad_Syntax"
begin

section \<open>The Julia set viewer of \<^verbatim>\<open>webgl_viewer/julia-viewer.js\<close>\<close>

text \<open>
  The viewer is a JavaScript class \<^verbatim>\<open>JuliaSetViewer\<close> that owns a WebGL context and one
  shader program. The fragment shader computes, for every pixel, the escape time of the
  quadratic map and a colour; the class's event handlers change a few numeric fields and
  call \<^verbatim>\<open>render\<close>.

  Numbers. JavaScript numbers and GLSL floats are modelled as \<^typ>\<open>real\<close>: arithmetic is
  exact and rounding is not modelled. The reals have no infinity and no NaN, so every
  operation whose floating-point result would be one of them is written out: a division
  by zero and a number that does not parse end the modelled computation with a value
  that says so (\<open>None\<close> in the shader, a \<open>fault\<close> in the handlers). JavaScript itself
  raises nothing there and goes on with \<^verbatim>\<open>Infinity\<close> or \<^verbatim>\<open>NaN\<close>.
  GLSL \<^verbatim>\<open>int\<close> values are modelled as \<^typ>\<open>int\<close>; the loop counters never exceed 500.
\<close>

subsection \<open>The fragment shader\<close>

type_synonym vec2 = "real \<times> real"
type_synonym vec3 = "real \<times> real \<times> real"
type_synonym vec4 = "real \<times> real \<times> real \<times> real"

text \<open>The uniforms of the fragment shader (lines 117 to 121).\<close>

record uniforms =
  u_julia_c :: vec2
  u_zoom :: real
  u_offset :: vec2
  u_max_iterations :: int
  u_resolution :: vec2

text \<open>GLSL \<^verbatim>\<open>dot\<close> and \<^verbatim>\<open>mix\<close> (\<^verbatim>\<open>mix(x, y, a) = x * (1 - a) + y * a\<close>, by component).\<close>

definition dot :: "vec2 \<Rightarrow> vec2 \<Rightarrow> real" where
  "dot a b = fst a * fst b + snd a * snd b"

fun mix :: "vec3 \<Rightarrow> vec3 \<Rightarrow> real \<Rightarrow> vec3" where
  "mix (x1, x2, x3) (y1, y2, y3) a =
     (x1 * (1 - a) + y1 * a, x2 * (1 - a) + y2 * a, x3 * (1 - a) + y3 * a)"

text \<open>A float division of the shader: undefined (\<open>None\<close>) when the divisor is zero.\<close>

definition glsl_div :: "real \<Rightarrow> real \<Rightarrow> real option" where
  "glsl_div a b = (if b = 0 then None else Some (a / b))"

text \<open>
  Lines 128 to 131: the texture coordinate is mapped to the starting point \<open>z\<close>.
  \<^verbatim>\<open>
  float aspect = u_resolution.x / u_resolution.y;
  vec2 z = ((uv - 0.5) * 2.0) / u_zoom + u_offset;
  z.x *= aspect;
  \<close>
\<close>

definition map_coord :: "uniforms \<Rightarrow> vec2 \<Rightarrow> vec2 option" where
  "map_coord u uv = do {
     aspect \<leftarrow> glsl_div (fst (u_resolution u)) (snd (u_resolution u));
     qx \<leftarrow> glsl_div ((fst uv - 0.5) * 2.0) (u_zoom u);
     qy \<leftarrow> glsl_div ((snd uv - 0.5) * 2.0) (u_zoom u);
     Some ((qx + fst (u_offset u)) * aspect, qy + snd (u_offset u))
   }"

text \<open>Lines 142 to 144: one application of \<open>z \<leftarrow> z\<^sup>2 + c\<close>.\<close>

definition julia_step :: "vec2 \<Rightarrow> vec2 \<Rightarrow> vec2" where
  "julia_step c z =
     (fst z * fst z - snd z * snd z + fst c, 2.0 * fst z * snd z + snd c)"

text \<open>
  Lines 135 to 147: the loop, with its counter \<open>i\<close>, the point \<open>z\<close> and \<open>iterations\<close>.
  \<^verbatim>\<open>
  for (int i = 0; i < 500; i++) {
      if (i >= u_max_iterations) break;
      if (dot(z, z) > 4.0) break;
      ... z = vec2(new_x, new_y);
      iterations++;
  }
  \<close>
  It returns the final \<open>z\<close> and \<open>iterations\<close>.
\<close>

function julia_loop :: "int \<Rightarrow> int \<Rightarrow> vec2 \<Rightarrow> vec2 \<Rightarrow> int \<Rightarrow> vec2 \<times> int" where
  "julia_loop i max_iterations c z iterations =
     (if i < 500 then
        if i \<ge> max_iterations then (z, iterations)
        else if dot z z > 4.0 then (z, iterations)
        else julia_loop (i + 1) max_iterations c (julia_step c z) (iterations + 1)
      else (z, iterations))"
  by pat_completeness auto
termination
  by (relation "measure (\<lambda>(i, m, c, z, n). nat (500 - i))") auto

declare julia_loop.simps [simp del]

text \<open>The escape-time count of a pixel: lines 125 to 147 of \<^verbatim>\<open>main\<close>.\<close>

definition escape_time :: "uniforms \<Rightarrow> vec2 \<Rightarrow> int option" where
  "escape_time u v_texCoord = do {
     z \<leftarrow> map_coord u v_texCoord;
     Some (snd (julia_loop 0 (u_max_iterations u) (u_julia_c u) z 0))
   }"

text \<open>Lines 158 to 161: the four anchor colours.\<close>

definition color1 :: vec3 where "color1 = (0.1, 0.2, 0.5)"
definition color2 :: vec3 where "color2 = (0.3, 0.8, 0.9)"
definition color3 :: vec3 where "color3 = (1.0, 0.4, 0.4)"
definition color4 :: vec3 where "color4 = (1.0, 1.0, 0.5)"

text \<open>Lines 164 to 170: the gradient at \<open>t\<close>.\<close>

definition gradient :: "real \<Rightarrow> vec3" where
  "gradient t =
     (if t < 0.33 then mix color1 color2 (t * 3.0)
      else if t < 0.66 then mix color2 color3 ((t - 0.33) * 3.0)
      else mix color3 color4 ((t - 0.66) * 3.0))"

text \<open>Lines 150 to 173: the colour written to \<^verbatim>\<open>gl_FragColor\<close>.\<close>

definition coloring :: "int \<Rightarrow> int \<Rightarrow> vec4 option" where
  "coloring iterations max_iterations =
     (if iterations = max_iterations then Some (0.0, 0.0, 0.0, 1.0)
      else do {
        t \<leftarrow> glsl_div (real_of_int iterations) (real_of_int max_iterations);
        (case gradient t of (r, g, b) \<Rightarrow> Some (r, g, b, 1.0))
      })"

text \<open>The fragment shader's \<^verbatim>\<open>main\<close> (lines 123 to 174): \<^verbatim>\<open>gl_FragColor\<close> for one fragment.\<close>

definition fragment_main :: "uniforms \<Rightarrow> vec2 \<Rightarrow> vec4 option" where
  "fragment_main u v_texCoord = do {
     iterations \<leftarrow> escape_time u v_texCoord;
     coloring iterations (u_max_iterations u)
   }"

text \<open>The orbit of \<open>z\<close> under \<open>z \<leftarrow> z\<^sup>2 + c\<close>: the point after \<open>k\<close> steps.\<close>

definition orbit :: "vec2 \<Rightarrow> vec2 \<Rightarrow> nat \<Rightarrow> vec2" where
  "orbit c z k = (julia_step c ^^ k) z"

text \<open>
  Following the spec's words, for comparison with \<open>gradient\<close>: the piecewise-linear
  interpolation through the four anchor colours placed at \<open>t = 0, 0.33, 0.66, 1.0\<close>.
\<close>

definition spec_gradient :: "real \<Rightarrow> vec3" where
  "spec_gradient t =
     (if t < 0.33 then mix color1 color2 (t / 0.33)
      else if t < 0.66 then mix color2 color3 ((t - 0.33) / 0.33)
      else mix color3 color4 ((t - 0.66) / 0.34))"

subsection \<open>The WebGL context\<close>

text \<open>
  The state of the WebGL context that \<^verbatim>\<open>render\<close> reads or writes: the viewport, the clear
  colour, the uniforms of the one program, the drawing buffer and a count of the draw
  calls issued. A pixel of the drawing buffer holds the \<^verbatim>\<open>gl_FragColor\<close> written to it, or
  \<open>None\<close> when the shader's result is undefined there. The clamping of a colour to
  \<open>[0, 1]\<close> and its quantisation to 8 bits on the write are not modelled.
\<close>

record gl_context =
  gl_viewport :: "nat \<times> nat \<times> nat \<times> nat"
  gl_clear_color :: vec4
  gl_uniforms :: uniforms
  gl_framebuffer :: "nat \<times> nat \<Rightarrow> vec4 option"
  gl_draw_calls :: nat

text \<open>
  The vertex shader (lines 103 to 107): \<^verbatim>\<open>v_texCoord = a_position * 0.5 + 0.5\<close> and
  \<^verbatim>\<open>gl_Position = vec4(a_position, 0.0, 1.0)\<close>.
\<close>

definition vertex_main :: "vec2 \<Rightarrow> vec2 \<times> vec4" where
  "vertex_main a_position =
     ((fst a_position * 0.5 + 0.5, snd a_position * 0.5 + 0.5),
      (fst a_position, snd a_position, 0.0, 1.0))"

text \<open>
  The quad of \<^verbatim>\<open>setupGeometry\<close> (lines 220 to 225) covers the clip square \<open>[-1, 1]\<^sup>2\<close>, and
  \<^verbatim>\<open>v_texCoord\<close> is affine in the position, so its interpolated value at a fragment is its
  value at the fragment's own position. The centre of pixel \<open>(px, py)\<close> of a \<open>w \<times> h\<close>
  viewport has the clip position \<open>(2 (px + 0.5) / w - 1, 2 (py + 0.5) / h - 1)\<close>.
  Used only for a pixel inside the viewport, where \<open>w\<close> and \<open>h\<close> are positive.
\<close>

definition fragment_texCoord :: "nat \<Rightarrow> nat \<Rightarrow> nat \<times> nat \<Rightarrow> vec2" where
  "fragment_texCoord w h p =
     fst (vertex_main (2 * (real (fst p) + 0.5) / real w - 1,
                       2 * (real (snd p) + 0.5) / real h - 1))"

text \<open>\<^verbatim>\<open>gl.clear(COLOR_BUFFER_BIT)\<close> and \<^verbatim>\<open>gl.drawArrays(TRIANGLE_STRIP, 0, 4)\<close> on the quad.\<close>

definition clear :: "gl_context \<Rightarrow> gl_context" where
  "clear g = g\<lparr>gl_framebuffer := (\<lambda>p. Some (gl_clear_color g))\<rparr>"

definition drawArrays :: "gl_context \<Rightarrow> gl_context" where
  "drawArrays g =
     (case gl_viewport g of (x, y, w, h) \<Rightarrow>
        g\<lparr>gl_framebuffer :=
             (\<lambda>p. if x \<le> fst p \<and> fst p < x + w \<and> y \<le> snd p \<and> snd p < y + h
                  then fragment_main (gl_uniforms g)
                         (fragment_texCoord w h (fst p - x, snd p - y))
                  else gl_framebuffer g p),
          gl_draw_calls := Suc (gl_draw_calls g)\<rparr>)"

text \<open>
  \<^verbatim>\<open>gl.uniform1i\<close> takes a 32-bit integer: the JavaScript number is converted by
  \<^verbatim>\<open>ToInt32\<close>, which wraps.
\<close>

definition toInt32 :: "int \<Rightarrow> int" where
  "toInt32 n = (n + 2 ^ 31) mod 2 ^ 32 - 2 ^ 31"

subsection \<open>The viewer object\<close>

text \<open>
  The fields of \<^verbatim>\<open>JuliaSetViewer\<close> (lines 8 to 26), the size of its canvas, and two
  facts about the page: whether the event listeners are registered, and the message
  that \<^verbatim>\<open>showError\<close> has put into the \<^verbatim>\<open>loading\<close> element. The text labels and slider
  positions that the handlers also write are not modelled: no handler reads them.
\<close>

record viewer =
  juliaReal :: real
  juliaImag :: real
  zoom :: real
  offsetX :: real
  offsetY :: real
  maxIterations :: int
  isDragging :: bool
  lastMouseX :: real
  lastMouseY :: real
  controlsVisible :: bool
  canvas_width :: nat
  canvas_height :: nat
  gl :: "gl_context option"
  listening :: bool
  error_shown :: "string option"

text \<open>
  What the model reports instead of a JavaScript value it has no number for, and the
  \<^verbatim>\<open>TypeError\<close> of a call on a \<^verbatim>\<open>null\<close> context.
\<close>

datatype fault = Division_by_zero | Not_a_number | Null_context

definition js_div :: "real \<Rightarrow> real \<Rightarrow> fault + real" where
  "js_div a b = (if b = 0 then Inl Division_by_zero else Inr (a / b))"

text \<open>
  \<^verbatim>\<open>render\<close> (lines 396 to 422). \<open>render_gl\<close> is the method's body on the context \<open>g\<close> that
  \<^verbatim>\<open>this.gl\<close> holds; \<open>render\<close> is the method, which fails on a \<^verbatim>\<open>null\<close> context.
  \<^verbatim>\<open>gl.uniform1f\<close> and \<^verbatim>\<open>gl.uniform2f\<close> store 32-bit floats; the uniforms here hold the
  exact values, as everywhere rounding is not modelled.
\<close>

definition render_gl :: "viewer \<Rightarrow> gl_context \<Rightarrow> gl_context" where
  "render_gl v g =
     (let g1 = g\<lparr>gl_viewport := (0, 0, canvas_width v, canvas_height v)\<rparr>;
          g2 = g1\<lparr>gl_clear_color := (0.0, 0.0, 0.0, 1.0)\<rparr>;
          g3 = clear g2;
          g4 = g3\<lparr>gl_uniforms := (gl_uniforms g3)\<lparr>u_julia_c := (juliaReal v, juliaImag v)\<rparr>\<rparr>;
          g5 = g4\<lparr>gl_uniforms := (gl_uniforms g4)\<lparr>u_zoom := zoom v\<rparr>\<rparr>;
          g6 = g5\<lparr>gl_uniforms := (gl_uniforms g5)\<lparr>u_offset := (offsetX v, offsetY v)\<rparr>\<rparr>;
          g7 = g6\<lparr>gl_uniforms :=
                  (gl_uniforms g6)\<lparr>u_max_iterations := toInt32 (maxIterations v)\<rparr>\<rparr>;
          g8 = g7\<lparr>gl_uniforms :=
                  (gl_uniforms g7)\<lparr>u_resolution :=
                     (real (canvas_width v), real (canvas_height v))\<rparr>\<rparr>
      in drawArrays g8)"

definition render :: "viewer \<Rightarrow> fault + viewer" where
  "render v =
     (case gl v of
        None \<Rightarrow> Inl Null_context
      | Some g \<Rightarrow> Inr (v\<lparr>gl := Some (render_gl v g)\<rparr>))"

subsection \<open>Parsing numbers\<close>

text \<open>
  \<^verbatim>\<open>parseFloat\<close> and \<^verbatim>\<open>parseInt\<close> are built in; they are modelled after ECMAScript on
  ASCII strings. Both skip leading white space, read a sign, and take the longest prefix
  that is a number; \<open>None\<close> stands for the results \<^verbatim>\<open>NaN\<close> and \<^verbatim>\<open>Infinity\<close>.

  The result is the double nearest to the number read. Of that rounding the model keeps
  the two ends: a magnitude of at least \<open>2\<^sup>1\<^sup>0\<^sup>2\<^sup>4 - 2\<^sup>9\<^sup>7\<^sup>0\<close>, half-way between the
  largest double and \<open>2\<^sup>1\<^sup>0\<^sup>2\<^sup>4\<close>, gives \<^verbatim>\<open>Infinity\<close>, and a magnitude of at most
  \<open>2\<^sup>-\<^sup>1\<^sup>0\<^sup>7\<^sup>5\<close>, half the smallest positive double, gives 0; in between the value is
  the exact one.
\<close>

definition to_double :: "real \<Rightarrow> real option" where
  "to_double x =
     (if \<bar>x\<bar> \<ge> 2 ^ 1024 - 2 ^ 970 then None
      else if \<bar>x\<bar> \<le> 1 / 2 ^ 1075 then Some 0
      else Some x)"

definition is_space :: "char \<Rightarrow> bool" where
  "is_space ch = (ch \<in> set [CHR 0x09, CHR 0x0A, CHR 0x0B, CHR 0x0C, CHR 0x0D, CHR '' ''])"

definition is_digit :: "char \<Rightarrow> bool" where
  "is_digit ch = (ch \<in> set ''0123456789'')"

definition digit_value :: "char \<Rightarrow> nat" where
  "digit_value ch = of_char ch - 48"

definition decimal :: "string \<Rightarrow> nat" where
  "decimal ds = foldl (\<lambda>a ch. 10 * a + digit_value ch) 0 ds"

definition is_hex_digit :: "char \<Rightarrow> bool" where
  "is_hex_digit ch = (ch \<in> set ''0123456789abcdefABCDEF'')"

definition hex_value :: "char \<Rightarrow> nat" where
  "hex_value ch =
     (if is_digit ch then of_char ch - 48
      else if ch \<in> set ''abcdef'' then of_char ch - 87
      else of_char ch - 55)"

definition strip_sign :: "string \<Rightarrow> bool \<times> string" where
  "strip_sign s =
     (case s of
        [] \<Rightarrow> (False, [])
      | ch # r \<Rightarrow>
          if ch = CHR ''-'' then (True, r)
          else if ch = CHR ''+'' then (False, r)
          else (False, s))"

text \<open>The exponent of an exponent part at the head of \<open>s\<close>; 0 when there is none.\<close>

definition exponent_part :: "string \<Rightarrow> int" where
  "exponent_part s =
     (case s of
        [] \<Rightarrow> 0
      | ch # r \<Rightarrow>
          if ch = CHR ''e'' \<or> ch = CHR ''E'' then
            (case strip_sign r of (neg, ds) \<Rightarrow>
               if takeWhile is_digit ds = [] then 0
               else if neg then - int (decimal (takeWhile is_digit ds))
               else int (decimal (takeWhile is_digit ds)))
          else 0)"

definition parseFloat :: "string \<Rightarrow> real option" where
  "parseFloat s =
     (case strip_sign (dropWhile is_space s) of (neg, s1) \<Rightarrow>
        let ip = takeWhile is_digit s1;
            r1 = dropWhile is_digit s1;
            dotted = (r1 \<noteq> [] \<and> hd r1 = CHR ''.'');
            fp = (if dotted then takeWhile is_digit (tl r1) else []);
            r2 = (if dotted then dropWhile is_digit (tl r1) else r1);
            m = real (decimal ip) + real (decimal fp) / 10 ^ length fp;
            e = exponent_part r2;
            x = (if 0 \<le> e then m * 10 ^ nat e else m / 10 ^ nat (- e))
        in if ip = [] \<and> fp = [] then None
           else to_double (if neg then - x else x))"

definition parseInt :: "string \<Rightarrow> int option" where
  "parseInt s =
     (case strip_sign (dropWhile is_space s) of (neg, s1) \<Rightarrow>
        let hex = (case s1 of
                     a # b # r \<Rightarrow> a = CHR ''0'' \<and> (b = CHR ''x'' \<or> b = CHR ''X'')
                   | _ \<Rightarrow> False);
            ds = (if hex then takeWhile is_hex_digit (drop 2 s1)
                  else takeWhile is_digit s1);
            n = (if hex then foldl (\<lambda>a ch. 16 * a + hex_value ch) 0 ds else decimal ds)
        in if ds = [] then None
           else map_option (\<lambda>x. if neg then - int n else int n) (to_double (real n)))"

subsection \<open>The event handlers\<close>

text \<open>
  \<^verbatim>\<open>resizeCanvas\<close> (lines 75 to 92), given \<^verbatim>\<open>window.innerWidth\<close>, \<^verbatim>\<open>window.innerHeight\<close>
  and \<^verbatim>\<open>window.devicePixelRatio\<close>. The canvas's \<^verbatim>\<open>width\<close> and \<^verbatim>\<open>height\<close> are integer
  attributes: the product is truncated. With a context it sets the viewport and renders.
\<close>

definition resizeCanvas :: "nat \<Rightarrow> nat \<Rightarrow> real \<Rightarrow> viewer \<Rightarrow> viewer" where
  "resizeCanvas innerWidth innerHeight dpr v =
     (let devicePixelRatio = (if dpr = 0 then 1 else dpr);
          v1 = v\<lparr>canvas_width := nat \<lfloor>real innerWidth * devicePixelRatio\<rfloor>,
                canvas_height := nat \<lfloor>real innerHeight * devicePixelRatio\<rfloor>\<rparr>
      in case gl v1 of
           None \<Rightarrow> v1
         | Some g \<Rightarrow>
             v1\<lparr>gl := Some (render_gl v1
                    (g\<lparr>gl_viewport := (0, 0, canvas_width v1, canvas_height v1)\<rparr>))\<rparr>)"

text \<open>The slider handlers (lines 250 to 272), given \<^verbatim>\<open>e.target.value\<close>.\<close>

definition real_input :: "string \<Rightarrow> viewer \<Rightarrow> fault + viewer" where
  "real_input val v =
     (case parseFloat val of
        None \<Rightarrow> Inl Not_a_number
      | Some x \<Rightarrow> render (v\<lparr>juliaReal := x\<rparr>))"

definition imag_input :: "string \<Rightarrow> viewer \<Rightarrow> fault + viewer" where
  "imag_input val v =
     (case parseFloat val of
        None \<Rightarrow> Inl Not_a_number
      | Some x \<Rightarrow> render (v\<lparr>juliaImag := x\<rparr>))"

definition zoom_input :: "string \<Rightarrow> viewer \<Rightarrow> fault + viewer" where
  "zoom_input val v =
     (case parseFloat val of
        None \<Rightarrow> Inl Not_a_number
      | Some x \<Rightarrow> render (v\<lparr>zoom := x\<rparr>))"

definition iter_input :: "string \<Rightarrow> viewer \<Rightarrow> fault + viewer" where
  "iter_input val v =
     (case parseInt val of
        None \<Rightarrow> Inl Not_a_number
      | Some n \<Rightarrow> render (v\<lparr>maxIterations := n\<rparr>))"

text \<open>
  The click handler of a preset button (lines 277 to 287), given the button's
  \<^verbatim>\<open>data-real\<close> and \<^verbatim>\<open>data-imag\<close> attributes.
\<close>

definition preset_click :: "string \<Rightarrow> string \<Rightarrow> viewer \<Rightarrow> fault + viewer" where
  "preset_click data_real data_imag v =
     (case parseFloat data_real of
        None \<Rightarrow> Inl Not_a_number
      | Some x \<Rightarrow>
          (case parseFloat data_imag of
             None \<Rightarrow> Inl Not_a_number
           | Some y \<Rightarrow> render (v\<lparr>juliaReal := x, juliaImag := y\<rparr>)))"

text \<open>The mouse handlers (lines 291 to 314), given \<^verbatim>\<open>e.clientX\<close> and \<^verbatim>\<open>e.clientY\<close>.\<close>

definition mousedown :: "real \<Rightarrow> real \<Rightarrow> viewer \<Rightarrow> viewer" where
  "mousedown clientX clientY v =
     v\<lparr>isDragging := True, lastMouseX := clientX, lastMouseY := clientY\<rparr>"

definition mousemove :: "real \<Rightarrow> real \<Rightarrow> viewer \<Rightarrow> fault + viewer" where
  "mousemove clientX clientY v =
     (if isDragging v then
        case js_div (clientX - lastMouseX v) (real (canvas_width v)) of
          Inl f \<Rightarrow> Inl f
        | Inr deltaX \<Rightarrow>
         (case js_div (clientY - lastMouseY v) (real (canvas_height v)) of
            Inl f \<Rightarrow> Inl f
          | Inr deltaY \<Rightarrow>
           (case js_div (deltaX * 2.0) (zoom v) of
              Inl f \<Rightarrow> Inl f
            | Inr dx \<Rightarrow>
             (case js_div (deltaY * 2.0) (zoom v) of
                Inl f \<Rightarrow> Inl f
              | Inr dy \<Rightarrow>
                  render (v\<lparr>offsetX := offsetX v - dx, offsetY := offsetY v + dy,
                            lastMouseX := clientX, lastMouseY := clientY\<rparr>))))
      else Inr v)"

definition mouseup :: "viewer \<Rightarrow> viewer" where
  "mouseup v = v\<lparr>isDragging := False\<rparr>"

text \<open>The wheel handler (lines 317 to 327), given \<^verbatim>\<open>e.deltaY\<close>.\<close>

definition wheel :: "real \<Rightarrow> viewer \<Rightarrow> fault + viewer" where
  "wheel deltaY v =
     (let zoomFactor = (if deltaY > 0 then 0.9 else 1.1);
          v1 = v\<lparr>zoom := zoom v * zoomFactor\<rparr>;
          v2 = v1\<lparr>zoom := max 0.1 (min 10.0 (zoom v1))\<rparr>
      in render v2)"

text \<open>The controls panel (lines 344 to 391).\<close>

definition toggleControls :: "viewer \<Rightarrow> viewer" where
  "toggleControls v = v\<lparr>controlsVisible := \<not> controlsVisible v\<rparr>"

definition hideControls :: "viewer \<Rightarrow> viewer" where
  "hideControls v = v\<lparr>controlsVisible := False\<rparr>"

definition canvas_click :: "viewer \<Rightarrow> viewer" where
  "canvas_click v = (if controlsVisible v \<and> \<not> isDragging v then hideControls v else v)"

text \<open>
  The events the listeners of \<^verbatim>\<open>setupEventListeners\<close> and \<^verbatim>\<open>setupUIEventListeners\<close>
  are registered for, each with the values its handler reads. A handler runs only when
  the listeners are registered. A run of events stops at the first fault.
\<close>

datatype event =
    RealInput string
  | ImagInput string
  | ZoomInput string
  | IterInput string
  | PresetClick string string
  | MouseDown real real
  | MouseMove real real
  | MouseUp
  | Wheel real
  | Resize nat nat real
  | CogClick
  | CloseClick
  | CanvasClick
  | PanelClick

fun handle :: "event \<Rightarrow> viewer \<Rightarrow> fault + viewer" where
  "handle (RealInput val) v = real_input val v"
| "handle (ImagInput val) v = imag_input val v"
| "handle (ZoomInput val) v = zoom_input val v"
| "handle (IterInput val) v = iter_input val v"
| "handle (PresetClick data_real data_imag) v = preset_click data_real data_imag v"
| "handle (MouseDown x y) v = Inr (mousedown x y v)"
| "handle (MouseMove x y) v = mousemove x y v"
| "handle MouseUp v = Inr (mouseup v)"
| "handle (Wheel deltaY) v = wheel deltaY v"
| "handle (Resize w h dpr) v = Inr (resizeCanvas w h dpr v)"
| "handle CogClick v = Inr (toggleControls v)"
| "handle CloseClick v = Inr (hideControls v)"
| "handle CanvasClick v = Inr (canvas_click v)"
| "handle PanelClick v = Inr v"

definition dispatch :: "event \<Rightarrow> viewer \<Rightarrow> fault + viewer" where
  "dispatch e v = (if listening v then handle e v else Inr v)"

fun run :: "event list \<Rightarrow> viewer \<Rightarrow> fault + viewer" where
  "run [] v = Inr v"
| "run (e # es) v = (case dispatch e v of Inl f \<Rightarrow> Inl f | Inr v' \<Rightarrow> run es v')"

subsection \<open>Initialisation\<close>

text \<open>
  What \<^verbatim>\<open>init\<close> reads from the browser: the window's size, whether \<^verbatim>\<open>getContext\<close> gives a
  context for \<^verbatim>\<open>'webgl'\<close> and for \<^verbatim>\<open>'experimental-webgl'\<close>, the compile status and info
  log of each shader, and the link status and info log of the program.
\<close>

record environment =
  innerWidth :: nat
  innerHeight :: nat
  devicePixelRatio :: real
  webgl :: bool
  experimental_webgl :: bool
  vertex_compiles :: bool
  vertex_log :: string
  fragment_compiles :: bool
  fragment_log :: string
  links :: bool
  link_log :: string

text \<open>The constructor's assignments (lines 8 to 26); a canvas is 300 by 150 by default.\<close>

definition constructor_fields :: viewer where
  "constructor_fields =
     \<lparr>juliaReal = - 0.7, juliaImag = 0.27015, zoom = 1.0, offsetX = 0.0, offsetY = 0.0,
      maxIterations = 100, isDragging = False, lastMouseX = 0, lastMouseY = 0,
      controlsVisible = False, canvas_width = 300, canvas_height = 150, gl = None,
      listening = False, error_shown = None\<rparr>"

text \<open>A context as \<^verbatim>\<open>getContext\<close> returns it: nothing drawn, every uniform zero.\<close>

definition new_context :: "nat \<Rightarrow> nat \<Rightarrow> gl_context" where
  "new_context w h =
     \<lparr>gl_viewport = (0, 0, w, h), gl_clear_color = (0, 0, 0, 0),
      gl_uniforms = \<lparr>u_julia_c = (0, 0), u_zoom = 0, u_offset = (0, 0),
                     u_max_iterations = 0, u_resolution = (0, 0)\<rparr>,
      gl_framebuffer = (\<lambda>p. Some (0, 0, 0, 0)), gl_draw_calls = 0\<rparr>"

text \<open>
  \<^verbatim>\<open>createShaderProgram\<close> with \<^verbatim>\<open>compileShader\<close> (lines 178 to 209): the message of the
  \<^verbatim>\<open>Error\<close> thrown, if any.
\<close>

definition createShaderProgram :: "environment \<Rightarrow> string + unit" where
  "createShaderProgram env =
     (if \<not> vertex_compiles env
      then Inl (''An error occurred compiling the shaders: '' @ vertex_log env)
      else if \<not> fragment_compiles env
      then Inl (''An error occurred compiling the shaders: '' @ fragment_log env)
      else if \<not> links env
      then Inl (''Unable to initialize shader program: '' @ link_log env)
      else Inr ())"

text \<open>\<^verbatim>\<open>showError\<close> (lines 427 to 432).\<close>

definition showError :: "string \<Rightarrow> viewer \<Rightarrow> viewer" where
  "showError message v = v\<lparr>error_shown := Some message\<rparr>"

text \<open>
  \<^verbatim>\<open>init\<close> (lines 34 to 70). An \<^verbatim>\<open>Error\<close> thrown in the \<^verbatim>\<open>try\<close> block ends it at that
  point; the \<^verbatim>\<open>catch\<close> block shows its message. The listeners are registered after the
  program is linked, and the first frame is rendered last, on the context \<open>g\<close> that
  \<^verbatim>\<open>this.gl\<close> then holds.
\<close>

definition init :: "environment \<Rightarrow> viewer \<Rightarrow> viewer" where
  "init env v =
     (let v1 = resizeCanvas (innerWidth env) (innerHeight env) (devicePixelRatio env) v
      in if \<not> (webgl env \<or> experimental_webgl env)
         then showError (''WebGL initialization failed: '' @ ''WebGL not supported'') v1
         else
           let g = new_context (canvas_width v1) (canvas_height v1);
               v2 = v1\<lparr>gl := Some g\<rparr>
           in case createShaderProgram env of
                Inl message \<Rightarrow> showError (''WebGL initialization failed: '' @ message) v2
              | Inr _ \<Rightarrow>
                  let v3 = v2\<lparr>listening := True\<rparr>
                  in v3\<lparr>gl := Some (render_gl v3 g)\<rparr>)"

text \<open>\<^verbatim>\<open>new JuliaSetViewer()\<close>: the constructor, which ends with \<^verbatim>\<open>this.init()\<close>.\<close>

definition new_viewer :: "environment \<Rightarrow> viewer" where
  "new_viewer env = init env constructor_fields"



section \<open>Properties of the fragment shader\<close>

subsection \<open>The loop\<close>

lemma orbit_0: "orbit c z 0 = z"
  by (simp add: orbit_def)

lemma orbit_Suc_shift: "orbit c z (Suc k) = orbit c (julia_step c z) k"
  by (simp add: orbit_def funpow_swap1)

lemma orbit_fixed: "julia_step c z = z \<Longrightarrow> orbit c z k = z"
  by (induction k) (simp_all add: orbit_def)

text \<open>
  Started at counter \<open>i\<close>, the loop makes \<open>k\<close> steps along the orbit, at most
  \<open>min N 500 - i\<close> of them, none from a point with \<open>dot z z > 4\<close>, and when it makes
  fewer it has stopped at such a point.
\<close>

lemma julia_loop_orbit:
  "julia_loop i N c z it = (zf, n) \<Longrightarrow>
   \<exists>k::nat. n = it + int k \<and> zf = orbit c z k
     \<and> int k \<le> max 0 (min N 500 - i)
     \<and> (\<forall>j<k. dot (orbit c z j) (orbit c z j) \<le> 4)
     \<and> (int k < max 0 (min N 500 - i) \<longrightarrow> dot zf zf > 4)"
proof (induction i N c z it arbitrary: zf n rule: julia_loop.induct)
  case (1 i N c z it)
  show ?case
  proof (cases "i < 500 \<and> i < N \<and> \<not> dot z z > 4")
    case True
    then have again: "julia_loop (i + 1) N c (julia_step c z) (it + 1) = (zf, n)"
      using "1.prems" by (simp add: julia_loop.simps [of i])
    from True have "\<exists>k::nat. n = (it + 1) + int k \<and> zf = orbit c (julia_step c z) k
       \<and> int k \<le> max 0 (min N 500 - (i + 1))
       \<and> (\<forall>j<k. dot (orbit c (julia_step c z) j) (orbit c (julia_step c z) j) \<le> 4)
       \<and> (int k < max 0 (min N 500 - (i + 1)) \<longrightarrow> dot zf zf > 4)"
      using "1.IH" [OF _ _ _ again] by simp
    then obtain k :: nat where k: "n = (it + 1) + int k" "zf = orbit c (julia_step c z) k"
       "int k \<le> max 0 (min N 500 - (i + 1))"
       "\<forall>j<k. dot (orbit c (julia_step c z) j) (orbit c (julia_step c z) j) \<le> 4"
       "int k < max 0 (min N 500 - (i + 1)) \<longrightarrow> dot zf zf > 4"
      by blast
    have small: "\<forall>j<Suc k. dot (orbit c z j) (orbit c z j) \<le> 4"
    proof (intro allI impI)
      fix j assume "j < Suc k"
      show "dot (orbit c z j) (orbit c z j) \<le> 4"
      proof (cases j)
        case 0
        then show ?thesis using True by (simp add: orbit_0)
      next
        case (Suc j')
        then show ?thesis using k(4) \<open>j < Suc k\<close> by (simp add: orbit_Suc_shift)
      qed
    qed
    show ?thesis
      apply (rule exI [of _ "Suc k"])
      using k True small by (auto simp: orbit_Suc_shift)
  next
    case False
    then have "julia_loop i N c z it = (z, it)"
      by (auto simp: julia_loop.simps [of i])
    then have "zf = z" "n = it" using "1.prems" by simp_all
    then show ?thesis
      apply (intro exI [of _ 0])
      using False by (auto simp: orbit_0)
  qed
qed

text \<open>At a fixed point inside the escape radius the loop runs to its bound.\<close>

lemma julia_loop_fixed:
  "julia_step c z = z \<Longrightarrow> dot z z \<le> 4 \<Longrightarrow>
   julia_loop i N c z it = (z, it + max 0 (min N 500 - i))"
proof (induction i N c z it rule: julia_loop.induct)
  case (1 i N c z it)
  show ?case
  proof (cases "i < 500 \<and> i < N")
    case True
    then show ?thesis
      using "1.IH" "1.prems" by (simp add: julia_loop.simps [of i])
  next
    case False
    then show ?thesis by (auto simp: julia_loop.simps [of i])
  qed
qed

lemma escape_time_nonneg: "escape_time u uv = Some n \<Longrightarrow> 0 \<le> n"
proof -
  assume e: "escape_time u uv = Some n"
  then obtain z0 where z0: "map_coord u uv = Some z0"
    by (auto simp: escape_time_def split: bind_splits)
  obtain zf m where run: "julia_loop 0 (u_max_iterations u) (u_julia_c u) z0 0 = (zf, m)"
    by (cases "julia_loop 0 (u_max_iterations u) (u_julia_c u) z0 0")
  from julia_loop_orbit [OF run] have "0 \<le> m" by auto
  then show ?thesis using e z0 run by (simp add: escape_time_def)
qed



text \<open>
  Beyond the ceiling the loop stops at 500: with \<open>c = 0\<close> and \<open>z0 = 0\<close> the orbit stays
  at 0, and for \<open>N = 501\<close> the count is 500.
\<close>

lemma escape_time_at_ceiling:
  "escape_time \<lparr>u_julia_c = (0, 0), u_zoom = 1, u_offset = (0, 0), u_max_iterations = 501,
      u_resolution = (1, 1)\<rparr> (1 / 2, 1 / 2) = Some 500"
proof -
  have fp: "julia_step (0, 0) (0, 0) = (0, 0)" by (simp add: julia_step_def)
  have le: "dot (0, 0) (0, 0) \<le> 4" by (simp add: dot_def)
  have l1: "julia_loop 0 501 (0, 0) (0, 0) 0 = ((0, 0), 500)"
    using julia_loop_fixed [OF fp le, of 0 501 0] by simp
  show ?thesis
    by (simp add: escape_time_def map_coord_def glsl_div_def l1)
qed

subsection \<open>The colour\<close>

text \<open>
  Claim C2. A fragment whose escape-time count equals \<open>maxIterations\<close> gets the colour
  \<open>(0, 0, 0, 1)\<close>: black, opaque.
\<close>

theorem in_set_black:
  "escape_time u uv = Some n \<Longrightarrow> n = u_max_iterations u \<Longrightarrow>
   fragment_main u uv = Some (0, 0, 0, 1)"
  by (simp add: fragment_main_def coloring_def)

theorem in_set_black_witness:
  "escape_time \<lparr>u_julia_c = (0, 0), u_zoom = 1, u_offset = (0, 0), u_max_iterations = 2,
      u_resolution = (1, 1)\<rparr> (1 / 2, 1 / 2) = Some 2
   \<and> fragment_main \<lparr>u_julia_c = (0, 0), u_zoom = 1, u_offset = (0, 0), u_max_iterations = 2,
      u_resolution = (1, 1)\<rparr> (1 / 2, 1 / 2) = Some (0, 0, 0, 1)"
proof -
  let ?u = "\<lparr>u_julia_c = (0, 0), u_zoom = 1, u_offset = (0, 0), u_max_iterations = 2,
      u_resolution = (1, 1)\<rparr>"
  have fp: "julia_step (0, 0) (0, 0) = (0, 0)" by (simp add: julia_step_def)
  have le: "dot (0, 0) (0, 0) \<le> 4" by (simp add: dot_def)
  have e: "escape_time ?u (1 / 2, 1 / 2) = Some 2"
    using julia_loop_fixed [OF fp le, of 0 2 0]
    by (simp add: escape_time_def map_coord_def glsl_div_def)
  from in_set_black [OF e] e show ?thesis by simp
qed

lemma gradient_affine:
  "gradient t =
     (if t < 0.33 then (0.1 + 0.6 * t, 0.2 + 1.8 * t, 0.5 + 1.2 * t)
      else if t < 0.66 then
        (0.3 + 2.1 * (t - 0.33), 0.8 - 1.2 * (t - 0.33), 0.9 - 1.5 * (t - 0.33))
      else (1, 0.4 + 1.8 * (t - 0.66), 0.4 + 0.3 * (t - 0.66)))"
  unfolding gradient_def color1_def color2_def color3_def color4_def mix.simps
  by (simp add: field_simps)

lemma gradient_anchors:
  "gradient 0 = color1" "gradient 0.33 = color2" "gradient 0.66 = color3"
  "gradient (0.66 + 1 / 3) = color4"
  by (simp_all add: gradient_def color1_def color2_def color3_def color4_def)

text \<open>
  Claim C3, as amended. For a fragment with escape count \<open>n < maxIterations\<close>, let
  \<open>t = n / maxIterations\<close>. Then \<open>0 \<le> t < 1\<close>, the alpha is 1, and the colour is affine in
  \<open>t\<close> on each of the pieces \<open>t < 0.33\<close>, \<open>0.33 \<le> t < 0.66\<close> and \<open>0.66 \<le> t\<close>: it is
  \<open>mix a b (3 * (t - s))\<close> for the piece's start \<open>s\<close> and the anchors \<open>a\<close>, \<open>b\<close> of the piece,
  written out by channel below. The gradient takes the anchors dark blue at \<open>t = 0\<close>
  (so \<open>n = 0\<close> gives exactly dark blue), cyan at \<open>t = 0.33\<close> and pink-red at \<open>t = 0.66\<close>;
  the blend weight is \<open>3 * (t - s)\<close> and not \<open>(t - s)\<close> over the piece's width, so yellow is
  reached at \<open>t = 0.66 + 1/3\<close>, not at \<open>1.0\<close>.
\<close>

theorem gradient_branch:
  assumes "escape_time u uv = Some n" and "n < u_max_iterations u"
  shows "(let t = real_of_int n / real_of_int (u_max_iterations u) in
           0 \<le> t \<and> t < 1 \<and>
           fragment_main u uv = Some
            (if t < 0.33 then (0.1 + 0.6 * t, 0.2 + 1.8 * t, 0.5 + 1.2 * t, 1)
             else if t < 0.66 then
               (0.3 + 2.1 * (t - 0.33), 0.8 - 1.2 * (t - 0.33), 0.9 - 1.5 * (t - 0.33), 1)
             else (1, 0.4 + 1.8 * (t - 0.66), 0.4 + 0.3 * (t - 0.66), 1)))
         \<and> (n = 0 \<longrightarrow> fragment_main u uv = Some (0.1, 0.2, 0.5, 1))
         \<and> gradient 0 = color1 \<and> gradient 0.33 = color2 \<and> gradient 0.66 = color3
         \<and> gradient (0.66 + 1 / 3) = color4"
proof -
  let ?N = "u_max_iterations u"
  let ?t = "real_of_int n / real_of_int ?N"
  have n0: "0 \<le> n" using assms(1) by (rule escape_time_nonneg)
  have Npos: "0 < ?N" using n0 assms(2) by simp
  have t0: "0 \<le> ?t" using n0 Npos by simp
  have t1: "?t < 1" using assms(2) Npos by simp
  have col: "coloring n ?N = Some (case gradient ?t of (r, g, b) \<Rightarrow> (r, g, b, 1))"
    using assms(2) Npos by (simp add: coloring_def glsl_div_def split: prod.splits)
  have frag: "fragment_main u uv = coloring n ?N"
    using assms(1) by (simp add: fragment_main_def)
  have main: "fragment_main u uv = Some
            (if ?t < 0.33 then (0.1 + 0.6 * ?t, 0.2 + 1.8 * ?t, 0.5 + 1.2 * ?t, 1)
             else if ?t < 0.66 then
               (0.3 + 2.1 * (?t - 0.33), 0.8 - 1.2 * (?t - 0.33), 0.9 - 1.5 * (?t - 0.33), 1)
             else (1, 0.4 + 1.8 * (?t - 0.66), 0.4 + 0.3 * (?t - 0.66), 1))"
    unfolding frag col by (simp add: gradient_affine)
  have zero: "n = 0 \<longrightarrow> fragment_main u uv = Some (0.1, 0.2, 0.5, 1)"
    using main by auto
  show ?thesis
    using t0 t1 main zero gradient_anchors by (simp add: Let_def)
qed

theorem gradient_branch_witness:
  "escape_time \<lparr>u_julia_c = (2, 0), u_zoom = 1, u_offset = (0, 0), u_max_iterations = 4,
      u_resolution = (1, 1)\<rparr> (1, 1 / 2) = Some 1
   \<and> (1 :: int) < 4
   \<and> fragment_main \<lparr>u_julia_c = (2, 0), u_zoom = 1, u_offset = (0, 0), u_max_iterations = 4,
      u_resolution = (1, 1)\<rparr> (1, 1 / 2) = Some (1 / 4, 13 / 20, 4 / 5, 1)"
proof -
  let ?u = "\<lparr>u_julia_c = (2, 0), u_zoom = 1, u_offset = (0, 0), u_max_iterations = 4,
      u_resolution = (1, 1)\<rparr>"
  have e: "escape_time ?u (1, 1 / 2) = Some 1"
    by (simp add: escape_time_def map_coord_def glsl_div_def julia_loop.simps dot_def
        julia_step_def)
  have l: "1 < u_max_iterations ?u" by simp
  from gradient_branch [OF e l] e show ?thesis by (simp add: Let_def)
qed

text \<open>
  The claim as stated fails: at the fragment of the witness above (\<open>n = 1\<close>,
  \<open>maxIterations = 4\<close>, \<open>t = 1/4\<close>) the shader's colour is \<open>mix color1 color2 (3/4)\<close>, and
  the interpolation through anchors placed at \<open>0\<close> and \<open>0.33\<close> is
  \<open>mix color1 color2 (25/33)\<close>. For the count 499 of 500 the blend weight is \<open>1.014\<close>:
  the green channel, \<open>1.0084\<close>, lies beyond the green of yellow and of every anchor.
\<close>

theorem gradient_branch_counterexample:
  "fragment_main \<lparr>u_julia_c = (2, 0), u_zoom = 1, u_offset = (0, 0), u_max_iterations = 4,
      u_resolution = (1, 1)\<rparr> (1, 1 / 2) = Some (1 / 4, 13 / 20, 4 / 5, 1)
   \<and> spec_gradient (1 / 4) = (83 / 330, 36 / 55, 53 / 66)
   \<and> spec_gradient (1 / 4) \<noteq> (1 / 4, 13 / 20, 4 / 5)
   \<and> coloring 499 500 = Some (1, 2521 / 2500, 2507 / 5000, 1)
   \<and> (1 :: real) < 2521 / 2500"
  by (simp add: fragment_main_def coloring_def gradient_def spec_gradient_def color1_def
      color2_def color3_def color4_def escape_time_def map_coord_def glsl_div_def
      julia_loop.simps dot_def julia_step_def)

subsection \<open>The coordinate mapping\<close>

text \<open>
  Claim C4. With a nonzero zoom and a nonzero viewport height, the shader maps the texture
  coordinate \<open>uv\<close> to \<open>z = ((uv - 0.5) * 2.0) / zoom + offset\<close> with the real component
  multiplied by \<open>aspect = width / height\<close>. The shape is preserved under a non-square
  viewport: for window positions \<open>(x, y)\<close> and \<open>(x', y')\<close> in pixels, whose texture coordinates
  are \<open>(x / width, y / height)\<close>, the difference of the mapped points is the difference
  of the positions times one factor, \<open>2 / (height * zoom)\<close>, on both axes.
\<close>

theorem coordinate_mapping:
  assumes "u_zoom u \<noteq> 0" and "snd (u_resolution u) \<noteq> 0"
  shows "map_coord u uv = Some
           ((((fst uv - 0.5) * 2.0) / u_zoom u + fst (u_offset u))
              * (fst (u_resolution u) / snd (u_resolution u)),
            ((snd uv - 0.5) * 2.0) / u_zoom u + snd (u_offset u))
         \<and> (\<forall>x y x' y'. fst (u_resolution u) \<noteq> 0 \<longrightarrow>
              (\<exists>z z'. map_coord u (x / fst (u_resolution u), y / snd (u_resolution u)) = Some z
                 \<and> map_coord u (x' / fst (u_resolution u), y' / snd (u_resolution u)) = Some z'
                 \<and> fst z' - fst z = 2 / (snd (u_resolution u) * u_zoom u) * (x' - x)
                 \<and> snd z' - snd z = 2 / (snd (u_resolution u) * u_zoom u) * (y' - y)))"
  using assms by (simp add: map_coord_def glsl_div_def field_simps)

theorem coordinate_mapping_witness:
  "u_zoom \<lparr>u_julia_c = (0, 0), u_zoom = 2, u_offset = (1, 0), u_max_iterations = 100,
      u_resolution = (800, 600)\<rparr> \<noteq> 0
   \<and> snd (u_resolution \<lparr>u_julia_c = (0, 0), u_zoom = 2, u_offset = (1, 0),
      u_max_iterations = 100, u_resolution = (800, 600)\<rparr>) \<noteq> 0
   \<and> map_coord \<lparr>u_julia_c = (0, 0), u_zoom = 2, u_offset = (1, 0), u_max_iterations = 100,
      u_resolution = (800, 600)\<rparr> (3 / 4, 1 / 4) = Some (5 / 3, - 1 / 4)"
proof -
  let ?u = "\<lparr>u_julia_c = (0, 0), u_zoom = 2, u_offset = (1, 0), u_max_iterations = 100,
      u_resolution = (800, 600)\<rparr>"
  have z: "u_zoom ?u \<noteq> 0" and h: "snd (u_resolution ?u) \<noteq> 0" by simp_all
  from coordinate_mapping [OF z h, of "(3 / 4, 1 / 4)"] show ?thesis by simp
qed

section \<open>Properties of the viewer\<close>

subsection \<open>Rendering\<close>

lemma render_Some: "gl v = Some g \<Longrightarrow> render v = Inr (v\<lparr>gl := Some (render_gl v g)\<rparr>)"
  by (simp add: render_def)

lemma render_gl_draw_calls: "gl_draw_calls (render_gl v g) = Suc (gl_draw_calls g)"
  by (simp add: render_gl_def drawArrays_def clear_def Let_def)

lemma render_gl_uniforms:
  "gl_uniforms (render_gl v g) =
     \<lparr>u_julia_c = (juliaReal v, juliaImag v), u_zoom = zoom v, u_offset = (offsetX v, offsetY v),
      u_max_iterations = toInt32 (maxIterations v),
      u_resolution = (real (canvas_width v), real (canvas_height v))\<rparr>"
  by (simp add: render_gl_def drawArrays_def clear_def Let_def)

lemma render_gl_framebuffer:
  "gl_framebuffer (render_gl v g) p =
     (if fst p < canvas_width v \<and> snd p < canvas_height v
      then fragment_main (gl_uniforms (render_gl v g))
             (fragment_texCoord (canvas_width v) (canvas_height v) p)
      else Some (0, 0, 0, 1))"
  by (simp add: render_gl_def drawArrays_def clear_def Let_def)

lemma render_gl_viewport:
  "gl_viewport (render_gl v g) = (0, 0, canvas_width v, canvas_height v)"
  by (simp add: render_gl_def drawArrays_def clear_def Let_def)

lemma render_gl_clear_color: "gl_clear_color (render_gl v g) = (0, 0, 0, 1)"
  by (simp add: render_gl_def drawArrays_def clear_def Let_def)

lemma constructor_simps:
  "listening constructor_fields = False" "error_shown constructor_fields = None"
  "gl constructor_fields = None" "zoom constructor_fields = 1"
  by (simp_all add: constructor_fields_def)

text \<open>
  A frame depends on the view state only: whatever the two contexts hold before.
\<close>

lemma render_gl_same_view:
  assumes "juliaReal v = juliaReal v'" and "juliaImag v = juliaImag v'"
    and "zoom v = zoom v'" and "offsetX v = offsetX v'" and "offsetY v = offsetY v'"
    and "maxIterations v = maxIterations v'"
    and "canvas_width v = canvas_width v'" and "canvas_height v = canvas_height v'"
  shows "gl_framebuffer (render_gl v g) = gl_framebuffer (render_gl v' g')"
proof
  fix p
  have u: "gl_uniforms (render_gl v g) = gl_uniforms (render_gl v' g')"
    using assms by (simp add: render_gl_uniforms)
  show "gl_framebuffer (render_gl v g) p = gl_framebuffer (render_gl v' g') p"
    unfolding render_gl_framebuffer u using assms(7,8) by simp
qed

text \<open>
  Claim C7. The rendered image is a function of the view state (\<open>c\<close>, zoom, offset,
  \<open>maxIterations\<close>, canvas size) at the call of \<^verbatim>\<open>render\<close>: two viewers that agree on
  these fields get the same drawing buffer, pixel by pixel, whatever their other fields
  and whatever their contexts held before (uniforms, drawing buffer, draw count); and a
  second call of \<^verbatim>\<open>render\<close> with the view state unchanged leaves the drawing buffer as
  the first call made it.
\<close>

theorem render_pure:
  assumes "juliaReal v = juliaReal v'" and "juliaImag v = juliaImag v'"
    and "zoom v = zoom v'" and "offsetX v = offsetX v'" and "offsetY v = offsetY v'"
    and "maxIterations v = maxIterations v'"
    and "canvas_width v = canvas_width v'" and "canvas_height v = canvas_height v'"
    and "gl v = Some g" and "gl v' = Some g'"
  shows "\<exists>w w' h h'. render v = Inr w \<and> render v' = Inr w' \<and> gl w = Some h \<and> gl w' = Some h'
           \<and> gl_framebuffer h = gl_framebuffer h'
           \<and> (\<exists>w2 h2. render w = Inr w2 \<and> gl w2 = Some h2
                \<and> gl_framebuffer h2 = gl_framebuffer h)"
proof -
  let ?w = "v\<lparr>gl := Some (render_gl v g)\<rparr>"
  let ?w' = "v'\<lparr>gl := Some (render_gl v' g')\<rparr>"
  let ?w2 = "?w\<lparr>gl := Some (render_gl ?w (render_gl v g))\<rparr>"
  have 1: "render v = Inr ?w" using assms(9) by (rule render_Some)
  have 2: "render v' = Inr ?w'" using assms(10) by (rule render_Some)
  have 3: "render ?w = Inr ?w2" by (rule render_Some) simp
  have 4: "gl_framebuffer (render_gl v g) = gl_framebuffer (render_gl v' g')"
    using assms(1-8) by (rule render_gl_same_view)
  have 5: "gl_framebuffer (render_gl ?w (render_gl v g)) = gl_framebuffer (render_gl v g)"
    by (rule render_gl_same_view) simp_all
  show ?thesis
    using 1 2 3 4 5 by simp
qed

theorem render_pure_witness:
  "gl (constructor_fields\<lparr>gl := Some (new_context 2 2)\<rparr>) = Some (new_context 2 2)
   \<and> gl (constructor_fields\<lparr>isDragging := True, lastMouseX := 5, controlsVisible := True,
          gl := Some ((new_context 2 2)\<lparr>gl_framebuffer := (\<lambda>p. None), gl_draw_calls := 7\<rparr>)\<rparr>)
       = Some ((new_context 2 2)\<lparr>gl_framebuffer := (\<lambda>p. None), gl_draw_calls := 7\<rparr>)
   \<and> (\<exists>w w' h h'.
         render (constructor_fields\<lparr>gl := Some (new_context 2 2)\<rparr>) = Inr w
       \<and> render (constructor_fields\<lparr>isDragging := True, lastMouseX := 5, controlsVisible := True,
          gl := Some ((new_context 2 2)\<lparr>gl_framebuffer := (\<lambda>p. None), gl_draw_calls := 7\<rparr>)\<rparr>)
           = Inr w'
       \<and> gl w = Some h \<and> gl w' = Some h' \<and> gl_framebuffer h = gl_framebuffer h')"
proof -
  let ?g = "new_context 2 2"
  let ?g' = "(new_context 2 2)\<lparr>gl_framebuffer := (\<lambda>p. None), gl_draw_calls := 7\<rparr>"
  let ?v = "constructor_fields\<lparr>gl := Some ?g\<rparr>"
  let ?v' = "constructor_fields\<lparr>isDragging := True, lastMouseX := 5, controlsVisible := True,
          gl := Some ?g'\<rparr>"
  have a: "gl ?v = Some ?g" and b: "gl ?v' = Some ?g'" by simp_all
  have "\<exists>w w' h h'. render ?v = Inr w \<and> render ?v' = Inr w' \<and> gl w = Some h \<and> gl w' = Some h'
           \<and> gl_framebuffer h = gl_framebuffer h'
           \<and> (\<exists>w2 h2. render w = Inr w2 \<and> gl w2 = Some h2
                \<and> gl_framebuffer h2 = gl_framebuffer h)"
    by (rule render_pure [OF _ _ _ _ _ _ _ _ a b]) simp_all
  then show ?thesis using a b by blast
qed

subsection \<open>The preset buttons\<close>

lemma double_range_ends:
  "(1 :: real) / 2 ^ 1075 < 1 / 1000" "(1000000 :: real) < 2 ^ 1024 - 2 ^ 970"
  by simp_all


lemma to_double_exact:
  assumes "1 / 1000 \<le> \<bar>x\<bar>" and "\<bar>x\<bar> \<le> 1000000"
  shows "to_double x = Some x"
proof -
  define hi :: real where "hi = 2 ^ 1024 - 2 ^ 970"
  define lo :: real where "lo = 1 / 2 ^ 1075"
  have "lo < 1 / 1000" and "1000000 < hi"
    unfolding lo_def hi_def by (rule double_range_ends)+
  then have "\<not> \<bar>x\<bar> \<ge> hi" and "\<not> \<bar>x\<bar> \<le> lo" using assms by linarith+
  then show ?thesis unfolding to_double_def hi_def lo_def by (simp only: if_False)
qed

lemma parseFloat_preset_real: "parseFloat ''-0.4'' = Some (- 0.4)"
  by (simp add: parseFloat_def strip_sign_def is_space_def is_digit_def decimal_def
      digit_value_def exponent_part_def Let_def to_double_exact)

lemma parseFloat_preset_imag: "parseFloat ''0.6'' = Some 0.6"
  by (simp add: parseFloat_def strip_sign_def is_space_def is_digit_def decimal_def
      digit_value_def exponent_part_def Let_def to_double_exact)

text \<open>
  Claim C8. A click on a preset button with \<^verbatim>\<open>data-real="-0.4"\<close> and
  \<^verbatim>\<open>data-imag="0.6"\<close> sets \<open>c\<close> to \<open>(-0.4, 0.6)\<close>, the parsed values of the two
  literals, leaves zoom, offset and \<open>maxIterations\<close> as they were, and issues exactly one
  draw call.
\<close>

theorem preset_click_sets_c:
  assumes "gl v = Some g"
  shows "\<exists>v' g'. handle (PresetClick ''-0.4'' ''0.6'') v = Inr v'
           \<and> juliaReal v' = - 0.4 \<and> juliaImag v' = 0.6
           \<and> zoom v' = zoom v \<and> offsetX v' = offsetX v \<and> offsetY v' = offsetY v
           \<and> maxIterations v' = maxIterations v
           \<and> gl v' = Some g' \<and> gl_draw_calls g' = Suc (gl_draw_calls g)"
  using assms by (simp add: preset_click_def parseFloat_preset_real parseFloat_preset_imag render_Some render_gl_draw_calls)

theorem preset_click_sets_c_witness:
  "gl (constructor_fields\<lparr>gl := Some (new_context 800 600)\<rparr>) = Some (new_context 800 600)
   \<and> (\<exists>v' g'. handle (PresetClick ''-0.4'' ''0.6'')
                 (constructor_fields\<lparr>gl := Some (new_context 800 600)\<rparr>) = Inr v'
         \<and> juliaReal v' = - 0.4 \<and> juliaImag v' = 0.6 \<and> zoom v' = 1 \<and> maxIterations v' = 100
         \<and> gl v' = Some g' \<and> gl_draw_calls g' = 1)"
proof -
  let ?v = "constructor_fields\<lparr>gl := Some (new_context 800 600)\<rparr>"
  have a: "gl ?v = Some (new_context 800 600)" by simp
  from preset_click_sets_c [OF a] obtain v' g' where
    "handle (PresetClick ''-0.4'' ''0.6'') ?v = Inr v'"
    "juliaReal v' = - 0.4" "juliaImag v' = 0.6" "zoom v' = zoom ?v"
    "maxIterations v' = maxIterations ?v" "gl v' = Some g'"
    "gl_draw_calls g' = Suc (gl_draw_calls (new_context 800 600))"
    by blast
  then show ?thesis
    using a by (simp add: constructor_fields_def new_context_def)
qed

subsection \<open>The wheel\<close>


lemma wheel_Some:
  "gl v = Some g \<Longrightarrow>
   \<exists>v'. wheel d v = Inr v'
      \<and> zoom v' = max 0.1 (min 10.0 (zoom v * (if d > 0 then 0.9 else 1.1)))
      \<and> listening v' = listening v \<and> gl v' \<noteq> None"
  by (simp add: wheel_def render_Some Let_def)


lemma wheel_run_clamped:
  "0.1 \<le> zoom v \<Longrightarrow> zoom v \<le> 10 \<Longrightarrow> listening v \<Longrightarrow> gl v \<noteq> None \<Longrightarrow>
   \<exists>v'. run (map Wheel ds) v = Inr v' \<and> 0.1 \<le> zoom v' \<and> zoom v' \<le> 10"
proof (induction ds arbitrary: v)
  case Nil
  then show ?case by simp
next
  case (Cons d ds)
  from Cons.prems(4) obtain g where g: "gl v = Some g" by auto
  from wheel_Some [OF g, of d] obtain v1 where
    v1: "wheel d v = Inr v1"
        "zoom v1 = max 0.1 (min 10.0 (zoom v * (if d > 0 then 0.9 else 1.1)))"
        "listening v1 = listening v" "gl v1 \<noteq> None"
    by blast
  have lo: "0.1 \<le> zoom v1" and hi: "zoom v1 \<le> 10" using v1(2) by simp_all
  have l: "listening v1" using v1(3) Cons.prems(3) by simp
  from Cons.IH [OF lo hi l v1(4)] obtain v' where
    "run (map Wheel ds) v1 = Inr v'" "0.1 \<le> zoom v'" "zoom v' \<le> 10"
    by blast
  then show ?case using v1(1) Cons.prems(3) by (simp add: dispatch_def)
qed

text \<open>
  Claim C5. From a zoom in \<open>[0.1, 10]\<close>, after every finite sequence of wheel events the
  zoom is in \<open>[0.1, 10]\<close>; one wheel event multiplies the zoom by 0.9 when \<open>deltaY > 0\<close>
  and by 1.1 otherwise, and clamps the product to \<open>[0.1, 10]\<close>.
\<close>

theorem wheel_zoom_clamped:
  assumes "0.1 \<le> zoom v" and "zoom v \<le> 10" and "listening v" and "gl v \<noteq> None"
  shows "(\<exists>v'. run (map Wheel ds) v = Inr v' \<and> 0.1 \<le> zoom v' \<and> zoom v' \<le> 10)
     \<and> (\<forall>d. \<exists>v1. wheel d v = Inr v1
            \<and> zoom v1 = max 0.1 (min 10.0 (zoom v * (if d > 0 then 0.9 else 1.1))))"
proof -
  from assms(4) obtain g where g: "gl v = Some g" by auto
  have "\<forall>d. \<exists>v1. wheel d v = Inr v1
            \<and> zoom v1 = max 0.1 (min 10.0 (zoom v * (if d > 0 then 0.9 else 1.1)))"
    using wheel_Some [OF g] by blast
  then show ?thesis using wheel_run_clamped [OF assms] by blast
qed

theorem wheel_zoom_clamped_witness:
  "0.1 \<le> zoom (constructor_fields\<lparr>gl := Some (new_context 800 600), listening := True\<rparr>)
   \<and> zoom (constructor_fields\<lparr>gl := Some (new_context 800 600), listening := True\<rparr>) \<le> 10
   \<and> (\<exists>v'. run (map Wheel [- 1, - 1, 1])
              (constructor_fields\<lparr>gl := Some (new_context 800 600), listening := True\<rparr>)
            = Inr v' \<and> 0.1 \<le> zoom v' \<and> zoom v' \<le> 10)"
proof -
  let ?v = "constructor_fields\<lparr>gl := Some (new_context 800 600), listening := True\<rparr>"
  have h: "0.1 \<le> zoom ?v" "zoom ?v \<le> 10" "listening ?v" "gl ?v \<noteq> None"
    by (simp_all add: constructor_simps)
  from wheel_zoom_clamped [OF h, of "[- 1, - 1, 1]"] h show ?thesis by blast
qed

subsection \<open>Dragging\<close>

text \<open>
  Claim C10. A \<^verbatim>\<open>mousemove\<close> while \<open>isDragging\<close> is false leaves the viewer as it is.
  While \<open>isDragging\<close> is true it changes only \<open>offsetX\<close>, \<open>offsetY\<close>, \<open>lastMouseX\<close> and
  \<open>lastMouseY\<close> (and, through \<^verbatim>\<open>render\<close>, the context): \<open>juliaReal\<close>, \<open>juliaImag\<close>, the
  zoom and \<open>maxIterations\<close> stay. With a nonzero zoom, a nonempty canvas and a context the
  handler does return a viewer.
\<close>

theorem mousemove_frame:
  "(\<not> isDragging v \<longrightarrow> mousemove x y v = Inr v)
   \<and> (isDragging v \<longrightarrow>
        (\<forall>v'. mousemove x y v = Inr v' \<longrightarrow>
           (\<exists>ox oy g'. v' = v\<lparr>offsetX := ox, offsetY := oy, lastMouseX := x, lastMouseY := y,
                              gl := g'\<rparr>)
           \<and> juliaReal v' = juliaReal v \<and> juliaImag v' = juliaImag v
           \<and> zoom v' = zoom v \<and> maxIterations v' = maxIterations v))
   \<and> (isDragging v \<and> zoom v \<noteq> 0 \<and> canvas_width v \<noteq> 0 \<and> canvas_height v \<noteq> 0
        \<and> gl v \<noteq> None \<longrightarrow> (\<exists>v'. mousemove x y v = Inr v'))"
  by (auto simp: mousemove_def js_div_def render_def split: option.splits if_splits)

theorem mousemove_frame_witness:
  "isDragging (constructor_fields\<lparr>isDragging := True, gl := Some (new_context 300 150)\<rparr>)
   \<and> (\<exists>v'. mousemove 30 15
              (constructor_fields\<lparr>isDragging := True, gl := Some (new_context 300 150)\<rparr>)
            = Inr v'
         \<and> juliaReal v' = - 0.7 \<and> juliaImag v' = 0.27015 \<and> zoom v' = 1
         \<and> maxIterations v' = 100)
   \<and> \<not> isDragging constructor_fields
   \<and> mousemove 30 15 constructor_fields = Inr constructor_fields"
proof -
  let ?v = "constructor_fields\<lparr>isDragging := True, gl := Some (new_context 300 150)\<rparr>"
  have d: "isDragging ?v" by simp
  have ok: "isDragging ?v \<and> zoom ?v \<noteq> 0 \<and> canvas_width ?v \<noteq> 0 \<and> canvas_height ?v \<noteq> 0
        \<and> gl ?v \<noteq> None"
    by (simp add: constructor_fields_def)
  have n: "\<not> isDragging constructor_fields" by (simp add: constructor_fields_def)
  from mousemove_frame [of ?v 30 15] ok obtain v' where v': "mousemove 30 15 ?v = Inr v'"
    by blast
  with mousemove_frame [of ?v 30 15] d have
    "juliaReal v' = juliaReal ?v \<and> juliaImag v' = juliaImag ?v
       \<and> zoom v' = zoom ?v \<and> maxIterations v' = maxIterations ?v"
    by blast
  then have "juliaReal v' = - 0.7 \<and> juliaImag v' = 0.27015 \<and> zoom v' = 1
         \<and> maxIterations v' = 100"
    by (simp add: constructor_fields_def)
  with v' d n mousemove_frame [of constructor_fields 30 15] show ?thesis by blast
qed

subsection \<open>Initialisation\<close>

lemma run_not_listening: "\<not> listening v \<Longrightarrow> run es v = Inr v"
  by (induction es) (simp_all add: dispatch_def)

lemma resizeCanvas_no_context:
  "gl v = None \<Longrightarrow>
   resizeCanvas w h dpr v =
     v\<lparr>canvas_width := nat \<lfloor>real w * (if dpr = 0 then 1 else dpr)\<rfloor>,
       canvas_height := nat \<lfloor>real h * (if dpr = 0 then 1 else dpr)\<rfloor>\<rparr>"
  by (simp add: resizeCanvas_def Let_def)

lemma constructor_resized:
  "resizeCanvas w h dpr constructor_fields =
     constructor_fields\<lparr>canvas_width := nat \<lfloor>real w * (if dpr = 0 then 1 else dpr)\<rfloor>,
       canvas_height := nat \<lfloor>real h * (if dpr = 0 then 1 else dpr)\<rfloor>\<rparr>"
  by (rule resizeCanvas_no_context) (simp add: constructor_fields_def)

lemma init_listening:
  "listening (new_viewer env) =
     ((webgl env \<or> experimental_webgl env) \<and> vertex_compiles env \<and> fragment_compiles env
        \<and> links env)"
  by (simp add: new_viewer_def init_def constructor_resized showError_def
      createShaderProgram_def constructor_simps Let_def)

lemma init_error_shown:
  "error_shown (new_viewer env) =
     (if \<not> (webgl env \<or> experimental_webgl env)
        then Some (''WebGL initialization failed: '' @ ''WebGL not supported'')
      else if \<not> vertex_compiles env
        then Some (''WebGL initialization failed: '' @
                     ''An error occurred compiling the shaders: '' @ vertex_log env)
      else if \<not> fragment_compiles env
        then Some (''WebGL initialization failed: '' @
                     ''An error occurred compiling the shaders: '' @ fragment_log env)
      else if \<not> links env
        then Some (''WebGL initialization failed: '' @
                     ''Unable to initialize shader program: '' @ link_log env)
      else None)"
  by (simp add: new_viewer_def init_def constructor_resized showError_def
      createShaderProgram_def constructor_simps Let_def)

lemma init_draw_calls:
  "gl (new_viewer env) = Some g \<Longrightarrow>
   gl_draw_calls g =
     (if (webgl env \<or> experimental_webgl env) \<and> vertex_compiles env \<and> fragment_compiles env
           \<and> links env then 1 else 0)"
  by (auto simp: new_viewer_def init_def constructor_resized showError_def
      createShaderProgram_def constructor_simps Let_def new_context_def render_gl_draw_calls
      split: if_splits)

text \<open>
  Claim C9. When \<^verbatim>\<open>init\<close> fails, for want of a WebGL context or because a shader does
  not compile or the program does not link, the page shows the message
  \<^verbatim>\<open>WebGL initialization failed: \<close> followed by the reason; nothing has been drawn, no
  listener is registered, and so every later sequence of events leaves the viewer as it
  is: no rendering, no retry, no other renderer. An error message is shown in these cases
  only.
\<close>

theorem init_failure:
  assumes "\<not> (webgl env \<or> experimental_webgl env) \<or> \<not> vertex_compiles env
             \<or> \<not> fragment_compiles env \<or> \<not> links env"
  shows "error_shown (new_viewer env) = Some (''WebGL initialization failed: '' @
            (if \<not> (webgl env \<or> experimental_webgl env) then ''WebGL not supported''
             else if \<not> vertex_compiles env
               then ''An error occurred compiling the shaders: '' @ vertex_log env
             else if \<not> fragment_compiles env
               then ''An error occurred compiling the shaders: '' @ fragment_log env
             else ''Unable to initialize shader program: '' @ link_log env))
     \<and> \<not> listening (new_viewer env)
     \<and> (\<forall>g. gl (new_viewer env) = Some g \<longrightarrow> gl_draw_calls g = 0)
     \<and> (\<forall>es. run es (new_viewer env) = Inr (new_viewer env))
     \<and> (\<forall>env'. error_shown (new_viewer env') \<noteq> None \<longrightarrow>
           \<not> (webgl env' \<or> experimental_webgl env') \<or> \<not> vertex_compiles env'
             \<or> \<not> fragment_compiles env' \<or> \<not> links env')"
proof -
  have nl: "\<not> listening (new_viewer env)"
    using assms by (auto simp: init_listening)
  have msg: "error_shown (new_viewer env) = Some (''WebGL initialization failed: '' @
            (if \<not> (webgl env \<or> experimental_webgl env) then ''WebGL not supported''
             else if \<not> vertex_compiles env
               then ''An error occurred compiling the shaders: '' @ vertex_log env
             else if \<not> fragment_compiles env
               then ''An error occurred compiling the shaders: '' @ fragment_log env
             else ''Unable to initialize shader program: '' @ link_log env))"
    using assms unfolding init_error_shown by auto
  have draws: "\<forall>g. gl (new_viewer env) = Some g \<longrightarrow> gl_draw_calls g = 0"
    using assms by (auto dest: init_draw_calls)
  have only: "\<forall>env'. error_shown (new_viewer env') \<noteq> None \<longrightarrow>
           \<not> (webgl env' \<or> experimental_webgl env') \<or> \<not> vertex_compiles env'
             \<or> \<not> fragment_compiles env' \<or> \<not> links env'"
    unfolding init_error_shown by auto
  show ?thesis
    using nl msg draws only run_not_listening [OF nl] by blast
qed

theorem init_failure_witness:
  "\<not> webgl \<lparr>innerWidth = 800, innerHeight = 600, devicePixelRatio = 1, webgl = False,
        experimental_webgl = False, vertex_compiles = True, vertex_log = [],
        fragment_compiles = True, fragment_log = [], links = True, link_log = []\<rparr>
   \<and> error_shown (new_viewer \<lparr>innerWidth = 800, innerHeight = 600, devicePixelRatio = 1,
        webgl = False, experimental_webgl = False, vertex_compiles = True, vertex_log = [],
        fragment_compiles = True, fragment_log = [], links = True, link_log = []\<rparr>)
       = Some ''WebGL initialization failed: WebGL not supported''
   \<and> \<not> listening (new_viewer \<lparr>innerWidth = 800, innerHeight = 600, devicePixelRatio = 1,
        webgl = False, experimental_webgl = False, vertex_compiles = True, vertex_log = [],
        fragment_compiles = True, fragment_log = [], links = True, link_log = []\<rparr>)
   \<and> error_shown (new_viewer \<lparr>innerWidth = 800, innerHeight = 600, devicePixelRatio = 1,
        webgl = True, experimental_webgl = False, vertex_compiles = True, vertex_log = [],
        fragment_compiles = True, fragment_log = [], links = False, link_log = ''bad''\<rparr>)
       = Some ''WebGL initialization failed: Unable to initialize shader program: bad''"
proof -
  let ?e = "\<lparr>innerWidth = 800, innerHeight = 600, devicePixelRatio = 1, webgl = False,
        experimental_webgl = False, vertex_compiles = True, vertex_log = [],
        fragment_compiles = True, fragment_log = [], links = True, link_log = []\<rparr>"
  let ?e2 = "\<lparr>innerWidth = 800, innerHeight = 600, devicePixelRatio = 1,
        webgl = True, experimental_webgl = False, vertex_compiles = True, vertex_log = [],
        fragment_compiles = True, fragment_log = [], links = False, link_log = ''bad''\<rparr>"
  have f: "\<not> (webgl ?e \<or> experimental_webgl ?e) \<or> \<not> vertex_compiles ?e
             \<or> \<not> fragment_compiles ?e \<or> \<not> links ?e" by simp
  have f2: "\<not> (webgl ?e2 \<or> experimental_webgl ?e2) \<or> \<not> vertex_compiles ?e2
             \<or> \<not> fragment_compiles ?e2 \<or> \<not> links ?e2" by simp
  from init_failure [OF f] init_failure [OF f2] show ?thesis by simp
qed

subsection \<open>The zoom as a divisor\<close>



















end
